theory Spec2Isabelle
  imports Complex_Main
begin

section \<open>Cross-page animated mesh: the persistence and interpolation engine\<close>

text \<open>
  A shallow embedding of \<^verbatim>\<open>animated-mesh.tsx\<close>: the process-wide state on
  \<^verbatim>\<open>window\<close>, the DOM geometry sampler, the \<^verbatim>\<open>requestAnimationFrame\<close> loop of
  \<^verbatim>\<open>AnimatedMesh\<close> and its effect cleanup.

  JavaScript numbers are modelled as the reals: rounding of IEEE doubles is not part of
  the model. Handles of frame requests are naturals; \<open>0\<close> is the falsy value that the
  source stores for "no handle".
\<close>

subsection \<open>Data\<close>

text \<open>\<^verbatim>\<open>THREE.Vector3\<close>; the fields are \<^verbatim>\<open>x\<close>, \<^verbatim>\<open>y\<close>, \<^verbatim>\<open>z\<close>.\<close>

record Vector3 =
  vec_x :: real
  vec_y :: real
  vec_z :: real

text \<open>The part of a \<^verbatim>\<open>DOMRect\<close> the source reads: \<^verbatim>\<open>left\<close>, \<^verbatim>\<open>top\<close>, \<^verbatim>\<open>width\<close>, \<^verbatim>\<open>height\<close>.\<close>

record DOMRect =
  rect_left :: real
  rect_top :: real
  rect_width :: real
  rect_height :: real

text \<open>The object stored in \<^verbatim>\<open>window.sharedMeshState\<close>.\<close>

record SharedMeshState =
  position :: Vector3
  scale :: Vector3
  animationId :: nat

text \<open>The props handed to the canvas: \<^verbatim>\<open>{position: [x, y, z], scale: [x, y, z], visible}\<close>.\<close>

record mesh_props =
  p_position :: "real list"
  p_scale :: "real list"
  p_visible :: bool

text \<open>
  The calls made to the scroll rig, in order: \<^verbatim>\<open>useCanvas(mesh, props, {key, dispose: false})\<close>,
  the \<^verbatim>\<open>update(props)\<close> function it returned for that key, and \<^verbatim>\<open>requestRender()\<close>.
  The library is outside the repository; the model records what it is called with.
\<close>

datatype canvas_call =
  UseCanvas string mesh_props
| Update string mesh_props
| RequestRender

text \<open>
  What one render of \<^verbatim>\<open>AnimatedMesh\<close> binds and its effect closes over: the props
  \<^verbatim>\<open>id\<close>, \<^verbatim>\<open>track\<close> (a ref object, named by a number) and \<^verbatim>\<open>lerpFactor\<close>, the tracker's
  \<^verbatim>\<open>inViewport\<close>, the object \<^verbatim>\<open>sharedState\<close> (its address), and \<^verbatim>\<open>update\<close>:
  \<open>None\<close> when \<^verbatim>\<open>useCanvas\<close> returned a falsy value, \<open>Some k\<close> for the updater of the
  registration with key \<open>k\<close>.
\<close>

record render_scope =
  key :: string
  track :: nat
  lerpFactor :: real
  inViewport :: bool
  sharedState :: nat
  update :: "string option"

text \<open>
  The \<^verbatim>\<open>animate\<close> closure of one effect run: the updater it captured (defined, since the
  effect returns before creating the closure otherwise) and the scope of its render.
\<close>

type_synonym frame_callback = "string \<times> render_scope"

text \<open>
  The browser and the window: the slot \<^verbatim>\<open>window.sharedMeshState\<close> (an object address or
  undefined), the objects themselves, the viewport, the layout
  (\<^verbatim>\<open>getBoundingClientRect\<close> of each element), the \<^verbatim>\<open>current\<close> field of each ref, the
  pending animation-frame callbacks with their handles, the last handle issued, and the
  logs of \<^verbatim>\<open>cancelAnimationFrame\<close> and scroll-rig calls.
\<close>

record world =
  sharedMeshState :: "nat option"
  heap :: "nat \<Rightarrow> SharedMeshState"
  heap_next :: nat
  innerWidth :: real
  innerHeight :: real
  boundingClientRect :: "nat \<Rightarrow> DOMRect"
  current :: "nat \<Rightarrow> nat option"
  frame_requests :: "(nat \<times> frame_callback) list"
  last_handle :: nat
  cancel_log :: "nat list"
  canvas_log :: "canvas_call list"

datatype error = TypeError

subsection \<open>Library and browser operations\<close>

text \<open>
  \<^verbatim>\<open>Vector3.lerp(v, alpha)\<close> of three.js: \<^verbatim>\<open>this.x += (v.x - this.x) * alpha\<close>, and so on.
  The expression is evaluated over the reals here; the rounding of each operation in
  IEEE doubles, which accumulates when the step is iterated, is outside the model.
\<close>

definition lerp :: "Vector3 \<Rightarrow> Vector3 \<Rightarrow> real \<Rightarrow> Vector3" where
  "lerp this v alpha =
     \<lparr>vec_x = vec_x this + (vec_x v - vec_x this) * alpha,
      vec_y = vec_y this + (vec_y v - vec_y this) * alpha,
      vec_z = vec_z this + (vec_z v - vec_z this) * alpha\<rparr>"

text \<open>\<^verbatim>\<open>requestAnimationFrame(cb)\<close>: a fresh non-zero handle, the callback queued.\<close>

definition requestAnimationFrame :: "frame_callback \<Rightarrow> world \<Rightarrow> nat \<times> world" where
  "requestAnimationFrame cb w =
     (let h = Suc (last_handle w)
      in (h, w\<lparr>frame_requests := frame_requests w @ [(h, cb)], last_handle := h\<rparr>))"

text \<open>\<^verbatim>\<open>cancelAnimationFrame(h)\<close>: the request with that handle, if pending, is dropped.\<close>

definition cancelAnimationFrame :: "nat \<Rightarrow> world \<Rightarrow> world" where
  "cancelAnimationFrame h w =
     w\<lparr>frame_requests := filter (\<lambda>r. fst r \<noteq> h) (frame_requests w),
       cancel_log := cancel_log w @ [h]\<rparr>"

subsection \<open>The source functions\<close>

definition new_state :: SharedMeshState where
  "new_state =
     \<lparr>position = \<lparr>vec_x = 0, vec_y = 0, vec_z = 0\<rparr>,
      scale = \<lparr>vec_x = 1, vec_y = 1, vec_z = 1\<rparr>,
      animationId = 0\<rparr>"

text \<open>\<^verbatim>\<open>getSharedMeshState\<close>: the object in the window slot, created when the slot is empty.\<close>

definition getSharedMeshState :: "world \<Rightarrow> nat \<times> world" where
  "getSharedMeshState w =
     (case sharedMeshState w of
        None \<Rightarrow>
          (let a = heap_next w
           in (a, w\<lparr>sharedMeshState := Some a,
                    heap := (heap w)(a := new_state),
                    heap_next := Suc a\<rparr>))
      | Some a \<Rightarrow> (a, w))"

text \<open>
  \<^verbatim>\<open>getDOMState(element)\<close>. The argument is what a ref's \<^verbatim>\<open>current\<close> holds; calling
  \<^verbatim>\<open>getBoundingClientRect\<close> on \<^verbatim>\<open>null\<close> throws.
\<close>

definition getDOMState :: "world \<Rightarrow> nat option \<Rightarrow> error + (Vector3 \<times> Vector3)" where
  "getDOMState w element =
     (case element of
        None \<Rightarrow> Inl TypeError
      | Some el \<Rightarrow>
          (let rect = boundingClientRect w el;
               position = \<lparr>vec_x = rect_left rect + rect_width rect / 2 - innerWidth w / 2,
                           vec_y = - (rect_top rect + rect_height rect / 2 - innerHeight w / 2),
                           vec_z = 0\<rparr>;
               scale = \<lparr>vec_x = rect_width rect, vec_y = rect_height rect, vec_z = 1\<rparr>
           in Inr (position, scale)))"

definition vec_array :: "Vector3 \<Rightarrow> real list" where
  "vec_array v = [vec_x v, vec_y v, vec_z v]"

text \<open>
  The body of \<^verbatim>\<open>AnimatedMesh\<close> up to the effect: the shared state is fetched and the mesh
  registered with props read from it. \<open>v\<close> is \<^verbatim>\<open>tracker.inViewport\<close> and \<open>u\<close> the value
  \<^verbatim>\<open>useCanvas\<close> returns, both supplied by the scroll rig.
\<close>

definition AnimatedMesh :: "string \<Rightarrow> nat \<Rightarrow> real \<Rightarrow> bool \<Rightarrow> string option \<Rightarrow> world
    \<Rightarrow> render_scope \<times> world" where
  "AnimatedMesh i t l v u w =
     (let (a, w1) = getSharedMeshState w;
          s = heap w1 a;
          props = \<lparr>p_position = vec_array (position s),
                   p_scale = vec_array (scale s),
                   p_visible = v\<rparr>;
          w2 = w1\<lparr>canvas_log := canvas_log w1 @ [UseCanvas i props]\<rparr>
      in (\<lparr>key = i, track = t, lerpFactor = l, inViewport = v, sharedState = a, update = u\<rparr>,
          w2))"

text \<open>The closure \<^verbatim>\<open>animate\<close>: one tick of the loop.\<close>

definition animate :: "string \<Rightarrow> render_scope \<Rightarrow> world \<Rightarrow> error + world" where
  "animate upd sc w =
     (if current w (track sc) = None then Inr w
      else
        (case getDOMState w (current w (track sc)) of
           Inl e \<Rightarrow> Inl e
         | Inr (targetPosition, targetScale) \<Rightarrow>
             (let a = sharedState sc;
                  s1 = (heap w a)\<lparr>position := lerp (position (heap w a)) targetPosition (lerpFactor sc)\<rparr>;
                  s2 = s1\<lparr>scale := lerp (scale s1) targetScale (lerpFactor sc)\<rparr>;
                  w1 = w\<lparr>heap := (heap w)(a := s2)\<rparr>;
                  props = \<lparr>p_position = vec_array (position s2),
                           p_scale = vec_array (scale s2),
                           p_visible = inViewport sc\<rparr>;
                  w2 = w1\<lparr>canvas_log := canvas_log w1 @ [Update upd props]\<rparr>;
                  w3 = w2\<lparr>canvas_log := canvas_log w2 @ [RequestRender]\<rparr>;
                  (h, w4) = requestAnimationFrame (upd, sc) w3
              in Inr (w4\<lparr>heap := (heap w4)(a := (heap w4 a)\<lparr>animationId := h\<rparr>)\<rparr>))))"

text \<open>The effect of \<^verbatim>\<open>AnimatedMesh\<close>: cancel the stored handle, then run the first tick.\<close>

definition effect :: "render_scope \<Rightarrow> world \<Rightarrow> error + world" where
  "effect sc w =
     (case update sc of
        None \<Rightarrow> Inr w
      | Some upd \<Rightarrow>
          (let a = sharedState sc;
               w1 = (if animationId (heap w a) \<noteq> 0
                     then cancelAnimationFrame (animationId (heap w a)) w else w)
           in animate upd sc w1))"

text \<open>The function the effect returns, run by React on unmount and before a re-run.\<close>

definition cleanup :: "render_scope \<Rightarrow> world \<Rightarrow> world" where
  "cleanup sc w =
     (let a = sharedState sc
      in if animationId (heap w a) \<noteq> 0
         then (let w1 = cancelAnimationFrame (animationId (heap w a)) w
               in w1\<lparr>heap := (heap w1)(a := (heap w1 a)\<lparr>animationId := 0\<rparr>)\<rparr>)
         else w)"

text \<open>
  The browser running the pending callback with handle \<open>h\<close>: the request leaves the
  queue, then the callback runs.
\<close>

definition run_frame_callback :: "nat \<Rightarrow> world \<Rightarrow> error + world" where
  "run_frame_callback h w =
     (case map_of (frame_requests w) h of
        None \<Rightarrow> Inr w
      | Some (upd, sc) \<Rightarrow>
          animate upd sc (w\<lparr>frame_requests := filter (\<lambda>r. fst r \<noteq> h) (frame_requests w)\<rparr>))"

text \<open>
  One display frame: the callbacks pending when the frame begins run in order; one that
  an earlier callback of the frame cancelled is skipped, one requested during the frame
  waits for the next frame. An exception would end the sequence; \<open>animate\<close> raises none.
\<close>

fun run_callbacks :: "nat list \<Rightarrow> world \<Rightarrow> error + world" where
  "run_callbacks [] w = Inr w"
| "run_callbacks (h # hs) w =
     (case run_frame_callback h w of
        Inl e \<Rightarrow> Inl e
      | Inr w' \<Rightarrow> run_callbacks hs w')"

definition frame :: "world \<Rightarrow> error + world" where
  "frame w = run_callbacks (map fst (frame_requests w)) w"

fun frames :: "nat \<Rightarrow> world \<Rightarrow> error + world" where
  "frames 0 w = Inr w"
| "frames (Suc n) w =
     (case frame w of
        Inl e \<Rightarrow> Inl e
      | Inr w' \<Rightarrow> frames n w')"

subsection \<open>The states the program reaches\<close>

text \<open>A freshly loaded page: no shared state yet, nothing requested, nothing logged.\<close>

definition initial :: "world \<Rightarrow> bool" where
  "initial w \<longleftrightarrow>
     sharedMeshState w = None \<and> frame_requests w = [] \<and> last_handle w = 0
     \<and> cancel_log w = [] \<and> canvas_log w = []"

text \<open>
  From there: any component renders; the effect or the cleanup of a render runs (its
  \<^verbatim>\<open>sharedState\<close> is the object of the window slot, which the render fetched); the
  browser runs a frame; layout, viewport and refs change.
\<close>

inductive reachable :: "world \<Rightarrow> bool" where
  r_initial: "initial w \<Longrightarrow> reachable w"
| r_render: "reachable w \<Longrightarrow> reachable (snd (AnimatedMesh i t l v u w))"
| r_effect: "reachable w \<Longrightarrow> sharedMeshState w = Some (sharedState sc)
     \<Longrightarrow> effect sc w = Inr w' \<Longrightarrow> reachable w'"
| r_cleanup: "reachable w \<Longrightarrow> sharedMeshState w = Some (sharedState sc)
     \<Longrightarrow> reachable (cleanup sc w)"
| r_frame: "reachable w \<Longrightarrow> frame w = Inr w' \<Longrightarrow> reachable w'"
| r_layout: "reachable w \<Longrightarrow>
     reachable (w\<lparr>innerWidth := vw, innerHeight := vh, boundingClientRect := r, current := c\<rparr>)"

text \<open>
  The single-loop invariant: at most one callback is pending, and its handle is the one
  stored in the shared state.
\<close>

definition single_loop :: "world \<Rightarrow> bool" where
  "single_loop w =
     (case sharedMeshState w of
        None \<Rightarrow> frame_requests w = []
      | Some a \<Rightarrow>
          (case frame_requests w of
             [] \<Rightarrow> True
           | [r] \<Rightarrow> fst r = animationId (heap w a) \<and> fst r \<noteq> 0 \<and> fst r \<le> last_handle w
                     \<and> sharedState (snd (snd r)) = a
           | _ \<Rightarrow> False))"

text \<open>
  What can happen to a world while no effect runs: components render, cleanups run, the
  browser runs frames, and layout, viewport and refs change.
\<close>

inductive without_effect :: "world \<Rightarrow> world \<Rightarrow> bool" where
  e_refl: "without_effect w w"
| e_render: "without_effect w w1 \<Longrightarrow> without_effect w (snd (AnimatedMesh i t l v u w1))"
| e_cleanup: "without_effect w w1 \<Longrightarrow> without_effect w (cleanup sc w1)"
| e_frame: "without_effect w w1 \<Longrightarrow> frame w1 = Inr w2 \<Longrightarrow> without_effect w w2"
| e_layout: "without_effect w w1 \<Longrightarrow>
     without_effect w
       (w1\<lparr>innerWidth := vw, innerHeight := vh, boundingClientRect := r, current := c\<rparr>)"

subsection \<open>A concrete run\<close>

text \<open>
  A page just loaded in a \<open>1000 \<times> 800\<close> viewport whose anchor has the rect
  \<open>{left: 560, top: 360, width: 80, height: 80}\<close>, so that the sampled position is
  \<open>(100, 0, 0)\<close>; the ref is attached.
\<close>

definition page_load :: world where
  "page_load =
     \<lparr>sharedMeshState = None, heap = (\<lambda>a. new_state), heap_next = 0,
      innerWidth = 1000, innerHeight = 800,
      boundingClientRect =
        (\<lambda>el. \<lparr>rect_left = 560, rect_top = 360, rect_width = 80, rect_height = 80\<rparr>),
      current = (\<lambda>r. Some 0),
      frame_requests = [], last_handle = 0, cancel_log = [], canvas_log = []\<rparr>"

text \<open>The first render of \<^verbatim>\<open><AnimatedElement id="pageb-element" />\<close>, default \<^verbatim>\<open>lerpFactor\<close>.\<close>

definition first_render :: "render_scope \<times> world" where
  "first_render =
     AnimatedMesh ''pageb-element'' 0 (1 / 10) True (Some ''pageb-element'') page_load"

text \<open>The world once the effect of that render has run: the loop is active.\<close>

definition mounted :: world where
  "mounted =
     (case effect (fst first_render) (snd first_render) of
        Inr w \<Rightarrow> w
      | Inl e \<Rightarrow> snd first_render)"

text \<open>The same world after the anchor has gone: every ref is \<^verbatim>\<open>null\<close>.\<close>

definition detached :: world where
  "detached = mounted\<lparr>current := (\<lambda>r. None)\<rparr>"

text \<open>
  That world after the frame that ran the last pending callback, once the refs are
  attached again.
\<close>

definition reattached :: world where
  "reattached = detached\<lparr>frame_requests := [], current := (\<lambda>r. Some 0)\<rparr>"

text \<open>A second render, of an element with the same id on the next page.\<close>

definition second_scope :: render_scope where
  "second_scope =
     \<lparr>key = ''pageb-element'', track = 1, lerpFactor = 1 / 10, inViewport = False,
      sharedState = 0, update = Some ''pageb-element''\<rparr>"

subsection \<open>Auxiliary notions\<close>

text \<open>The key, position and scale that a call hands to the canvas, its \<^verbatim>\<open>visible\<close> left out.\<close>

fun call_geometry :: "canvas_call \<Rightarrow> (string \<times> real list \<times> real list) option" where
  "call_geometry (UseCanvas k p) = Some (k, p_position p, p_scale p)"
| "call_geometry (Update k p) = Some (k, p_position p, p_scale p)"
| "call_geometry RequestRender = None"

section \<open>Properties\<close>

subsection \<open>Ticks and the single-loop invariant\<close>

lemma getDOMState_Some:
  "\<exists>tp ts. getDOMState w (Some el) = Inr (tp, ts)"
  by (simp add: getDOMState_def Let_def)

lemma animate_unset: "current w (track sc) = None \<Longrightarrow> animate upd sc w = Inr w"
  by (simp add: animate_def)

lemma animate_returns: "\<exists>w'. animate upd sc w = Inr w'"
  by (cases "current w (track sc)")
     (auto simp: animate_def getDOMState_def Let_def requestAnimationFrame_def split: prod.splits)

lemma animate_set_fields:
  assumes "current w (track sc) = Some el" and "animate upd sc w = Inr w'"
  shows "frame_requests w' = frame_requests w @ [(Suc (last_handle w), (upd, sc))]"
    and "last_handle w' = Suc (last_handle w)"
    and "animationId (heap w' (sharedState sc)) = Suc (last_handle w)"
    and "sharedMeshState w' = sharedMeshState w"
    and "cancel_log w' = cancel_log w"
    and "current w' = current w"
    and "boundingClientRect w' = boundingClientRect w"
    and "innerWidth w' = innerWidth w"
    and "innerHeight w' = innerHeight w"
    and "heap_next w' = heap_next w"
  using assms
  by (auto simp: animate_def getDOMState_def Let_def requestAnimationFrame_def split: prod.splits)

lemma animate_single_loop:
  assumes "sharedMeshState w = Some (sharedState sc)" and "frame_requests w = []"
    and "animate upd sc w = Inr w'"
  shows "single_loop w'"
proof (cases "current w (track sc)")
  case None
  with assms show ?thesis by (simp add: animate_unset single_loop_def)
next
  case (Some el)
  from animate_set_fields[OF Some assms(3)] assms(1,2) show ?thesis
    by (simp add: single_loop_def)
qed

lemma cancel_single_loop_empty:
  "single_loop w \<Longrightarrow> sharedMeshState w = Some a \<Longrightarrow> animationId (heap w a) \<noteq> 0
   \<Longrightarrow> frame_requests (cancelAnimationFrame (animationId (heap w a)) w) = []"
  by (auto simp: single_loop_def cancelAnimationFrame_def split: list.splits)

lemma single_loop_zero_empty:
  "single_loop w \<Longrightarrow> sharedMeshState w = Some a \<Longrightarrow> animationId (heap w a) = 0
   \<Longrightarrow> frame_requests w = []"
  by (auto simp: single_loop_def split: list.splits)

lemma effect_single_loop:
  assumes "single_loop w" and "sharedMeshState w = Some (sharedState sc)"
    and "effect sc w = Inr w'"
  shows "single_loop w'"
proof (cases "update sc")
  case None
  with assms show ?thesis by (simp add: effect_def)
next
  case (Some upd)
  let ?a = "sharedState sc"
  let ?w1 = "if animationId (heap w ?a) \<noteq> 0
             then cancelAnimationFrame (animationId (heap w ?a)) w else w"
  have e: "frame_requests ?w1 = []"
    using assms(1,2) cancel_single_loop_empty single_loop_zero_empty by auto
  have s: "sharedMeshState ?w1 = Some ?a"
    using assms(2) by (simp add: cancelAnimationFrame_def)
  have "animate upd sc ?w1 = Inr w'"
    using assms(3) Some by (simp add: effect_def Let_def)
  from animate_single_loop[OF s e this] show ?thesis .
qed

lemma cleanup_single_loop:
  assumes "single_loop w" and "sharedMeshState w = Some (sharedState sc)"
  shows "single_loop (cleanup sc w)" and "frame_requests (cleanup sc w) = []"
  using assms cancel_single_loop_empty[OF assms] single_loop_zero_empty[OF assms]
  by (auto simp: cleanup_def Let_def single_loop_def cancelAnimationFrame_def)

lemma render_single_loop:
  "single_loop w \<Longrightarrow> single_loop (snd (AnimatedMesh i t l v u w))"
  by (auto simp: AnimatedMesh_def getSharedMeshState_def Let_def single_loop_def
      split: option.splits prod.splits list.splits)

lemma frame_single_loop:
  assumes "single_loop w" and "frame w = Inr w'"
  shows "single_loop w'"
proof (cases "sharedMeshState w")
  case None
  with assms show ?thesis by (simp add: single_loop_def frame_def)
next
  case (Some a)
  show ?thesis
  proof (cases "frame_requests w")
    case Nil
    with assms show ?thesis by (simp add: frame_def)
  next
    case (Cons r rs)
    with assms(1) Some have rs: "rs = []" and a: "sharedState (snd (snd r)) = a"
      by (auto simp: single_loop_def split: list.splits)
    obtain h upd sc where r: "r = (h, upd, sc)" by (cases r) auto
    let ?w1 = "w\<lparr>frame_requests := filter (\<lambda>r. fst r \<noteq> h) (frame_requests w)\<rparr>"
    have "animate upd sc ?w1 = Inr w'"
      using assms(2) Cons rs r
      by (simp add: frame_def run_frame_callback_def split: sum.splits)
    moreover have "frame_requests ?w1 = []" using Cons rs r by simp
    moreover have "sharedMeshState ?w1 = Some (sharedState sc)" using Some a r by simp
    ultimately show ?thesis using animate_single_loop by blast
  qed
qed

lemma layout_single_loop:
  "single_loop w \<Longrightarrow>
   single_loop (w\<lparr>innerWidth := vw, innerHeight := vh, boundingClientRect := r, current := c\<rparr>)"
  by (auto simp: single_loop_def split: option.splits list.splits)

lemma reachable_single_loop: "reachable w \<Longrightarrow> single_loop w"
proof (induction rule: reachable.induct)
  case (r_initial w)
  then show ?case by (simp add: initial_def single_loop_def)
next
  case (r_render w i t l v u)
  then show ?case by (simp add: render_single_loop)
next
  case (r_effect w sc w')
  then show ?case using effect_single_loop by blast
next
  case (r_cleanup w sc)
  then show ?case using cleanup_single_loop(1) by blast
next
  case (r_frame w w')
  then show ?case using frame_single_loop by blast
next
  case (r_layout w vw vh r c)
  then show ?case by (simp add: layout_single_loop)
qed

subsection \<open>The geometry sampler\<close>

text \<open>
  C1. For an element with bounding rect \<open>{left, top, width, height}\<close> in a viewport
  \<open>vw \<times> vh\<close>, \<^verbatim>\<open>getDOMState\<close> returns position
  \<open>(left + width/2 - vw/2, -(top + height/2 - vh/2), 0)\<close> and scale \<open>(width, height, 1)\<close>;
  for the rect \<open>{100, 200, 80, 80}\<close> in a \<open>1000 \<times> 800\<close> viewport that is position
  \<open>(-360, 160, 0)\<close> and scale \<open>(80, 80, 1)\<close>.
\<close>

theorem getDOMState_sample:
  "getDOMState
     (w\<lparr>innerWidth := vw, innerHeight := vh,
        boundingClientRect := (boundingClientRect w)
          (el := \<lparr>rect_left = l, rect_top = t, rect_width = wd, rect_height = ht\<rparr>)\<rparr>)
     (Some el)
   = Inr (\<lparr>vec_x = l + wd / 2 - vw / 2, vec_y = - (t + ht / 2 - vh / 2), vec_z = 0\<rparr>,
          \<lparr>vec_x = wd, vec_y = ht, vec_z = 1\<rparr>)
   \<and> getDOMState
     (w\<lparr>innerWidth := 1000, innerHeight := 800,
        boundingClientRect := (boundingClientRect w)
          (el := \<lparr>rect_left = 100, rect_top = 200, rect_width = 80, rect_height = 80\<rparr>)\<rparr>)
     (Some el)
   = Inr (\<lparr>vec_x = - 360, vec_y = 160, vec_z = 0\<rparr>,
          \<lparr>vec_x = 80, vec_y = 80, vec_z = 1\<rparr>)"
  by (simp add: getDOMState_def)

subsection \<open>The concrete run, evaluated\<close>

lemma first_render_scope:
  "fst first_render =
     \<lparr>key = ''pageb-element'', track = 0, lerpFactor = 1 / 10, inViewport = True,
      sharedState = 0, update = Some ''pageb-element''\<rparr>"
  by (simp add: first_render_def AnimatedMesh_def getSharedMeshState_def page_load_def Let_def)

lemma first_render_world:
  "snd first_render =
     page_load\<lparr>sharedMeshState := Some 0, heap_next := Suc 0,
        canvas_log := [UseCanvas ''pageb-element''
           \<lparr>p_position = [0, 0, 0], p_scale = [1, 1, 1], p_visible = True\<rparr>]\<rparr>"
  by (simp add: first_render_def AnimatedMesh_def getSharedMeshState_def page_load_def Let_def
      new_state_def vec_array_def fun_eq_iff)

lemma effect_returns: "\<exists>w'. effect sc w = Inr w'"
  by (cases "update sc") (simp_all add: effect_def Let_def animate_returns)

lemma effect_first_render: "effect (fst first_render) (snd first_render) = Inr mounted"
proof -
  obtain w' where "effect (fst first_render) (snd first_render) = Inr w'"
    using effect_returns by blast
  then show ?thesis by (simp add: mounted_def)
qed

lemma mounted_fields:
  "sharedMeshState mounted = Some 0"
  "frame_requests mounted = [(1, ''pageb-element'', fst first_render)]"
  "last_handle mounted = 1"
  "animationId (heap mounted 0) = 1"
  "position (heap mounted 0) = \<lparr>vec_x = 10, vec_y = 0, vec_z = 0\<rparr>"
  "scale (heap mounted 0) = \<lparr>vec_x = 89 / 10, vec_y = 89 / 10, vec_z = 1\<rparr>"
  "current mounted = (\<lambda>r. Some 0)"
  "cancel_log mounted = []"
  by (simp_all add: mounted_def first_render_scope first_render_world effect_def animate_def
      getDOMState_def page_load_def new_state_def lerp_def requestAnimationFrame_def Let_def)

lemma reachable_mounted: "reachable mounted"
proof -
  have "initial page_load" by (simp add: initial_def page_load_def)
  then have "reachable (snd first_render)"
    unfolding first_render_def by (intro r_render r_initial)
  moreover have "sharedMeshState (snd first_render) = Some (sharedState (fst first_render))"
    by (simp add: first_render_scope first_render_world)
  ultimately show ?thesis using effect_first_render by (rule r_effect)
qed

lemma frame_single:
  "frame_requests w = [(h, upd, sc)] \<Longrightarrow> frame w = animate upd sc (w\<lparr>frame_requests := []\<rparr>)"
  by (simp add: frame_def run_frame_callback_def split: sum.splits)

lemma frame_idle: "frame_requests w = [] \<Longrightarrow> frame w = Inr w"
  by (simp add: frame_def)

lemma animate_set_state:
  assumes "current w (track sc) = Some el" and "getDOMState w (Some el) = Inr (tp, ts)"
    and "animate upd sc w = Inr w'"
  shows "position (heap w' (sharedState sc)) = lerp (position (heap w (sharedState sc))) tp (lerpFactor sc)"
    and "scale (heap w' (sharedState sc)) = lerp (scale (heap w (sharedState sc))) ts (lerpFactor sc)"
    and "getDOMState w' (Some el) = Inr (tp, ts)"
  using assms
  by (auto simp: animate_def getDOMState_def Let_def requestAnimationFrame_def split: prod.splits)

subsection \<open>The interpolation step\<close>

text \<open>
  C2. A tick that samples a target \<open>T\<close> with smoothing factor \<open>\<alpha>\<close> returns, and
  leaves each component of the shared position and scale at \<open>old + (T - old) * \<alpha>\<close>.
  In the concrete run the state starts at position \<open>(0, 0, 0)\<close>, the sampled target
  position is \<open>(100, 0, 0)\<close> and \<open>\<alpha> = 1/10\<close>: the position is \<open>(10, 0, 0)\<close> after the
  first tick and \<open>(19, 0, 0)\<close> after the second, which the browser runs in the next frame.
\<close>

theorem animate_lerp_step:
  "(current w (track sc) = Some el \<and> getDOMState w (Some el) = Inr (T\<^sub>p, T\<^sub>s) \<longrightarrow>
      (\<exists>w'. animate upd sc w = Inr w'
         \<and> position (heap w' (sharedState sc)) =
             \<lparr>vec_x = vec_x (position (heap w (sharedState sc)))
                  + (vec_x T\<^sub>p - vec_x (position (heap w (sharedState sc)))) * lerpFactor sc,
              vec_y = vec_y (position (heap w (sharedState sc)))
                  + (vec_y T\<^sub>p - vec_y (position (heap w (sharedState sc)))) * lerpFactor sc,
              vec_z = vec_z (position (heap w (sharedState sc)))
                  + (vec_z T\<^sub>p - vec_z (position (heap w (sharedState sc)))) * lerpFactor sc\<rparr>
         \<and> scale (heap w' (sharedState sc)) =
             \<lparr>vec_x = vec_x (scale (heap w (sharedState sc)))
                  + (vec_x T\<^sub>s - vec_x (scale (heap w (sharedState sc)))) * lerpFactor sc,
              vec_y = vec_y (scale (heap w (sharedState sc)))
                  + (vec_y T\<^sub>s - vec_y (scale (heap w (sharedState sc)))) * lerpFactor sc,
              vec_z = vec_z (scale (heap w (sharedState sc)))
                  + (vec_z T\<^sub>s - vec_z (scale (heap w (sharedState sc)))) * lerpFactor sc\<rparr>))
   \<and> position (heap (snd first_render) 0) = \<lparr>vec_x = 0, vec_y = 0, vec_z = 0\<rparr>
   \<and> lerpFactor (fst first_render) = 1 / 10
   \<and> getDOMState (snd first_render) (current (snd first_render) (track (fst first_render)))
       = Inr (\<lparr>vec_x = 100, vec_y = 0, vec_z = 0\<rparr>, \<lparr>vec_x = 80, vec_y = 80, vec_z = 1\<rparr>)
   \<and> (\<exists>w1 w2. animate ''pageb-element'' (fst first_render) (snd first_render) = Inr w1
         \<and> frame w1 = Inr w2
         \<and> position (heap w1 0) = \<lparr>vec_x = 10, vec_y = 0, vec_z = 0\<rparr>
         \<and> position (heap w2 0) = \<lparr>vec_x = 19, vec_y = 0, vec_z = 0\<rparr>)"
proof (intro conjI impI)
  assume a: "current w (track sc) = Some el \<and> getDOMState w (Some el) = Inr (T\<^sub>p, T\<^sub>s)"
  obtain w' where w': "animate upd sc w = Inr w'" using animate_returns by blast
  from a animate_set_state(1,2)[OF _ _ w'] w'
  show "\<exists>w'. animate upd sc w = Inr w'
         \<and> position (heap w' (sharedState sc)) =
             \<lparr>vec_x = vec_x (position (heap w (sharedState sc)))
                  + (vec_x T\<^sub>p - vec_x (position (heap w (sharedState sc)))) * lerpFactor sc,
              vec_y = vec_y (position (heap w (sharedState sc)))
                  + (vec_y T\<^sub>p - vec_y (position (heap w (sharedState sc)))) * lerpFactor sc,
              vec_z = vec_z (position (heap w (sharedState sc)))
                  + (vec_z T\<^sub>p - vec_z (position (heap w (sharedState sc)))) * lerpFactor sc\<rparr>
         \<and> scale (heap w' (sharedState sc)) =
             \<lparr>vec_x = vec_x (scale (heap w (sharedState sc)))
                  + (vec_x T\<^sub>s - vec_x (scale (heap w (sharedState sc)))) * lerpFactor sc,
              vec_y = vec_y (scale (heap w (sharedState sc)))
                  + (vec_y T\<^sub>s - vec_y (scale (heap w (sharedState sc)))) * lerpFactor sc,
              vec_z = vec_z (scale (heap w (sharedState sc)))
                  + (vec_z T\<^sub>s - vec_z (scale (heap w (sharedState sc)))) * lerpFactor sc\<rparr>"
    by (simp add: lerp_def)
next
  show "position (heap (snd first_render) 0) = \<lparr>vec_x = 0, vec_y = 0, vec_z = 0\<rparr>"
    by (simp add: first_render_world page_load_def new_state_def)
next
  show "lerpFactor (fst first_render) = 1 / 10" by (simp add: first_render_scope)
next
  show "getDOMState (snd first_render) (current (snd first_render) (track (fst first_render)))
       = Inr (\<lparr>vec_x = 100, vec_y = 0, vec_z = 0\<rparr>, \<lparr>vec_x = 80, vec_y = 80, vec_z = 1\<rparr>)"
    by (simp add: first_render_world first_render_scope page_load_def getDOMState_def)
next
  have 1: "animate ''pageb-element'' (fst first_render) (snd first_render) = Inr mounted"
    using effect_first_render
    by (simp add: effect_def first_render_scope first_render_world page_load_def new_state_def)
  obtain w2 where 2: "frame mounted = Inr w2"
    using frame_single[OF mounted_fields(2)] animate_returns by metis
  then have "animate ''pageb-element'' (fst first_render) (mounted\<lparr>frame_requests := []\<rparr>) = Inr w2"
    using frame_single[OF mounted_fields(2)] by simp
  then have "position (heap w2 0) = \<lparr>vec_x = 19, vec_y = 0, vec_z = 0\<rparr>"
    by (auto simp: animate_def mounted_fields first_render_scope getDOMState_def Let_def lerp_def
        requestAnimationFrame_def mounted_def first_render_world effect_def page_load_def new_state_def)
  with 1 2 mounted_fields(5)
  show "\<exists>w1 w2. animate ''pageb-element'' (fst first_render) (snd first_render) = Inr w1
         \<and> frame w1 = Inr w2
         \<and> position (heap w1 0) = \<lparr>vec_x = 10, vec_y = 0, vec_z = 0\<rparr>
         \<and> position (heap w2 0) = \<lparr>vec_x = 19, vec_y = 0, vec_z = 0\<rparr>"
    by blast
qed

theorem animate_lerp_step_witness:
  "current (snd first_render) (track (fst first_render)) = Some 0
   \<and> getDOMState (snd first_render) (Some 0)
       = Inr (\<lparr>vec_x = 100, vec_y = 0, vec_z = 0\<rparr>, \<lparr>vec_x = 80, vec_y = 80, vec_z = 1\<rparr>)
   \<and> (\<exists>w'. animate ''pageb-element'' (fst first_render) (snd first_render) = Inr w'
         \<and> position (heap w' 0) = \<lparr>vec_x = 10, vec_y = 0, vec_z = 0\<rparr>
         \<and> scale (heap w' 0) = \<lparr>vec_x = 89 / 10, vec_y = 89 / 10, vec_z = 1\<rparr>)"
proof -
  have c: "current (snd first_render) (track (fst first_render)) = Some 0"
    by (simp add: first_render_world first_render_scope page_load_def)
  have g: "getDOMState (snd first_render) (Some 0)
       = Inr (\<lparr>vec_x = 100, vec_y = 0, vec_z = 0\<rparr>, \<lparr>vec_x = 80, vec_y = 80, vec_z = 1\<rparr>)"
    by (simp add: first_render_world page_load_def getDOMState_def)
  have s: "sharedState (fst first_render) = 0" "lerpFactor (fst first_render) = 1 / 10"
    "heap (snd first_render) 0 = new_state"
    by (simp_all add: first_render_scope first_render_world page_load_def)
  from animate_lerp_step[of "snd first_render" "fst first_render" 0
      "\<lparr>vec_x = 100, vec_y = 0, vec_z = 0\<rparr>" "\<lparr>vec_x = 80, vec_y = 80, vec_z = 1\<rparr>"
      "''pageb-element''"] c g
  show ?thesis by (simp add: s new_state_def)
qed

subsection \<open>Ticks without an element\<close>

text \<open>
  C8. No tick throws: \<^verbatim>\<open>animate\<close> always returns. A tick that finds the ref unset
  returns the world as it was: position and scale of every state object, and the calls
  made to the canvas, are unchanged.
\<close>

theorem unset_tick_is_harmless:
  "(\<exists>w'. animate upd sc w = Inr w')
   \<and> (current w (track sc) = None \<longrightarrow>
        (\<exists>w'. animate upd sc w = Inr w'
           \<and> (\<forall>a. position (heap w' a) = position (heap w a)
                    \<and> scale (heap w' a) = scale (heap w a))
           \<and> canvas_log w' = canvas_log w
           \<and> w' = w))"
  by (simp add: animate_returns animate_unset)

theorem unset_tick_is_harmless_witness:
  "current detached (track (fst first_render)) = None
   \<and> animate ''pageb-element'' (fst first_render) detached = Inr detached
   \<and> position (heap detached 0) = \<lparr>vec_x = 10, vec_y = 0, vec_z = 0\<rparr>"
  using unset_tick_is_harmless[of "''pageb-element''" "fst first_render" detached]
  by (simp add: detached_def mounted_fields)

text \<open>
  C4, as the spec states it, fails: in the concrete run, once the ref is unset, the frame
  runs the pending callback, which returns at once and requests nothing. The queue is
  empty afterwards and stays so: the chain has ended.
\<close>

theorem unset_tick_reschedules_counterexample:
  "current detached (track (fst first_render)) = None
   \<and> frame_requests detached = [(1, ''pageb-element'', fst first_render)]
   \<and> frame detached = Inr (detached\<lparr>frame_requests := []\<rparr>)
   \<and> frames 3 detached = Inr (detached\<lparr>frame_requests := []\<rparr>)"
proof -
  have c: "current detached (track (fst first_render)) = None"
    and q: "frame_requests detached = [(1, ''pageb-element'', fst first_render)]"
    by (simp_all add: detached_def mounted_fields)
  have f: "frame detached = Inr (detached\<lparr>frame_requests := []\<rparr>)"
    using c by (simp add: frame_single[OF q] animate_unset)
  have i: "frame (detached\<lparr>frame_requests := []\<rparr>) = Inr (detached\<lparr>frame_requests := []\<rparr>)"
    by (simp add: frame_idle)
  have "frames 3 detached = Inr (detached\<lparr>frame_requests := []\<rparr>)"
    by (simp add: numeral_3_eq_3 f i)
  with c q f show ?thesis by simp
qed

lemma render_keeps_queue:
  "frame_requests (snd (AnimatedMesh i t l v u w)) = frame_requests w"
  by (simp add: AnimatedMesh_def getSharedMeshState_def Let_def split: option.splits prod.splits)

lemma cleanup_keeps_idle: "frame_requests w = [] \<Longrightarrow> frame_requests (cleanup sc w) = []"
  by (simp add: cleanup_def Let_def cancelAnimationFrame_def)

lemma without_effect_idle:
  "without_effect w w' \<Longrightarrow> frame_requests w = [] \<Longrightarrow> frame_requests w' = []"
proof (induction rule: without_effect.induct)
  case (e_refl w)
  then show ?case by simp
next
  case (e_render w w1 i t l v u)
  then show ?case by (simp add: render_keeps_queue)
next
  case (e_cleanup w w1 sc)
  then show ?case by (simp add: cleanup_keeps_idle)
next
  case (e_frame w w1 w2)
  then show ?case by (simp add: frame_idle)
next
  case (e_layout w w1 vw vh r c)
  then show ?case by simp
qed

lemma effect_on_idle:
  assumes "frame_requests w = []" and "update sc = Some u"
  shows "current w (track sc) \<noteq> None \<Longrightarrow>
      \<exists>w'. effect sc w = Inr w' \<and> frame_requests w' = [(Suc (last_handle w), u, sc)]"
    and "current w (track sc) = None \<Longrightarrow>
      \<exists>w'. effect sc w = Inr w' \<and> frame_requests w' = []"
proof -
  let ?w1 = "if animationId (heap w (sharedState sc)) \<noteq> 0
             then cancelAnimationFrame (animationId (heap w (sharedState sc))) w else w"
  have e: "frame_requests ?w1 = []" "last_handle ?w1 = last_handle w" "current ?w1 = current w"
    using assms(1) by (simp_all add: cancelAnimationFrame_def)
  have eff: "effect sc w = animate u sc ?w1" using assms(2) by (simp add: effect_def Let_def)
  obtain w' where w': "animate u sc ?w1 = Inr w'" using animate_returns by blast
  show "current w (track sc) \<noteq> None \<Longrightarrow>
      \<exists>w'. effect sc w = Inr w' \<and> frame_requests w' = [(Suc (last_handle w), u, sc)]"
  proof -
    assume "current w (track sc) \<noteq> None"
    then obtain el where "current ?w1 (track sc) = Some el" using e(3) by auto
    from animate_set_fields(1)[OF this w'] e eff w' show ?thesis by simp
  qed
  show "current w (track sc) = None \<Longrightarrow>
      \<exists>w'. effect sc w = Inr w' \<and> frame_requests w' = []"
  proof -
    assume "current w (track sc) = None"
    then have "animate u sc ?w1 = Inr ?w1" using e(3) animate_unset[of ?w1 sc u] by simp
    with eff e(1) show ?thesis by simp
  qed
qed

lemma without_effect_reattached:
  "without_effect (detached\<lparr>frame_requests := []\<rparr>) reattached"
proof -
  let ?w = "detached\<lparr>frame_requests := []\<rparr>"
  have "without_effect ?w (?w\<lparr>innerWidth := innerWidth ?w, innerHeight := innerHeight ?w,
      boundingClientRect := boundingClientRect ?w, current := (\<lambda>r. Some 0)\<rparr>)"
    by (intro e_layout e_refl)
  then show ?thesis by (simp add: reattached_def)
qed

text \<open>
  C4, amended. When the browser runs a pending callback whose ref is unset, the callback
  leaves the queue and nothing else changes: no update, no new request. If it was the
  only pending callback, the queue is empty after the frame, and it stays empty through
  whatever happens while no effect runs: renders, cleanups, further frames, changes of
  layout, viewport and refs. The loop resumes only when an effect runs again: started by
  an effect whose \<^verbatim>\<open>update\<close> is defined, the queue then holds that effect's request if
  its element is attached, and is still empty if its ref is unset.
\<close>

theorem unset_tick_ends_chain:
  "current w (track sc) = None \<and> map_of (frame_requests w) h = Some (upd, sc) \<longrightarrow>
     run_frame_callback h w
       = Inr (w\<lparr>frame_requests := filter (\<lambda>r. fst r \<noteq> h) (frame_requests w)\<rparr>)
     \<and> (frame_requests w = [(h, upd, sc)] \<longrightarrow>
          frame w = Inr (w\<lparr>frame_requests := []\<rparr>)
          \<and> (\<forall>w'. without_effect (w\<lparr>frame_requests := []\<rparr>) w' \<longrightarrow>
                frame_requests w' = []
                \<and> (\<forall>sc' u. update sc' = Some u \<longrightarrow>
                      (\<exists>w''. effect sc' w' = Inr w''
                         \<and> frame_requests w''
                             = (if current w' (track sc') = None then []
                                else [(Suc (last_handle w'), u, sc')])))))"
proof (intro impI conjI allI)
  assume a: "current w (track sc) = None \<and> map_of (frame_requests w) h = Some (upd, sc)"
  then show "run_frame_callback h w
       = Inr (w\<lparr>frame_requests := filter (\<lambda>r. fst r \<noteq> h) (frame_requests w)\<rparr>)"
    by (simp add: run_frame_callback_def animate_unset)
  assume q: "frame_requests w = [(h, upd, sc)]"
  show "frame w = Inr (w\<lparr>frame_requests := []\<rparr>)"
    using a by (simp add: frame_single[OF q] animate_unset)
  fix w'
  assume "without_effect (w\<lparr>frame_requests := []\<rparr>) w'"
  then show i: "frame_requests w' = []" by (rule without_effect_idle) simp
  fix sc' :: render_scope and u
  assume "update sc' = Some u"
  from effect_on_idle[OF i this]
  show "\<exists>w''. effect sc' w' = Inr w''
     \<and> frame_requests w''
         = (if current w' (track sc') = None then [] else [(Suc (last_handle w'), u, sc')])"
    by (cases "current w' (track sc')") auto
qed

theorem unset_tick_ends_chain_witness:
  "current detached (track (fst first_render)) = None
   \<and> map_of (frame_requests detached) 1 = Some (''pageb-element'', fst first_render)
   \<and> frame_requests detached = [(1, ''pageb-element'', fst first_render)]
   \<and> run_frame_callback 1 detached = Inr (detached\<lparr>frame_requests := []\<rparr>)
   \<and> frame detached = Inr (detached\<lparr>frame_requests := []\<rparr>)
   \<and> without_effect (detached\<lparr>frame_requests := []\<rparr>) reattached
   \<and> frame_requests reattached = []
   \<and> update second_scope = Some ''pageb-element''
   \<and> current reattached (track second_scope) \<noteq> None
   \<and> (\<exists>w''. effect second_scope reattached = Inr w''
         \<and> frame_requests w'' = [(2, ''pageb-element'', second_scope)])"
proof -
  have c: "current detached (track (fst first_render)) = None"
    and m: "map_of (frame_requests detached) 1 = Some (''pageb-element'', fst first_render)"
    and q: "frame_requests detached = [(1, ''pageb-element'', fst first_render)]"
    by (simp_all add: detached_def mounted_fields)
  have u: "update second_scope = Some ''pageb-element''" by (simp add: second_scope_def)
  have r: "current reattached (track second_scope) \<noteq> None" "last_handle reattached = 1"
    by (simp_all add: reattached_def detached_def mounted_fields)
  from unset_tick_ends_chain[of detached "fst first_render" 1 "''pageb-element''"] c m q
  have 1: "run_frame_callback 1 detached = Inr (detached\<lparr>frame_requests := []\<rparr>)"
    and 2: "frame detached = Inr (detached\<lparr>frame_requests := []\<rparr>)"
    and 3: "\<forall>w'. without_effect (detached\<lparr>frame_requests := []\<rparr>) w' \<longrightarrow>
                frame_requests w' = []
                \<and> (\<forall>sc' u. update sc' = Some u \<longrightarrow>
                      (\<exists>w''. effect sc' w' = Inr w''
                         \<and> frame_requests w''
                             = (if current w' (track sc') = None then []
                                else [(Suc (last_handle w'), u, sc')])))"
    by simp_all
  from 3 without_effect_reattached u
  have 4: "frame_requests reattached = []"
    and 5: "\<exists>w''. effect second_scope reattached = Inr w''
       \<and> frame_requests w''
           = (if current reattached (track second_scope) = None then []
              else [(Suc (last_handle reattached), ''pageb-element'', second_scope)])"
    by blast+
  from 5 r have "\<exists>w''. effect second_scope reattached = Inr w''
         \<and> frame_requests w'' = [(2, ''pageb-element'', second_scope)]"
    by (simp add: numeral_2_eq_2)
  with c m q 1 2 4 u r(1) without_effect_reattached show ?thesis by blast
qed

subsection \<open>The shared state\<close>

text \<open>
  C6. With the window slot empty, \<^verbatim>\<open>getSharedMeshState\<close> stores a new object in it, with
  position \<open>(0, 0, 0)\<close>, scale \<open>(1, 1, 1)\<close> and no handle; with the slot filled it returns
  the object of the slot and changes nothing; so a second call returns what the first did.
\<close>

theorem getSharedMeshState_singleton:
  "(sharedMeshState w = None \<longrightarrow>
      sharedMeshState (snd (getSharedMeshState w)) = Some (fst (getSharedMeshState w))
      \<and> heap (snd (getSharedMeshState w)) (fst (getSharedMeshState w))
          = \<lparr>position = \<lparr>vec_x = 0, vec_y = 0, vec_z = 0\<rparr>,
             scale = \<lparr>vec_x = 1, vec_y = 1, vec_z = 1\<rparr>,
             animationId = 0\<rparr>)
   \<and> (sharedMeshState w = Some a \<longrightarrow> getSharedMeshState w = (a, w))
   \<and> getSharedMeshState (snd (getSharedMeshState w))
       = (fst (getSharedMeshState w), snd (getSharedMeshState w))"
  by (simp add: getSharedMeshState_def new_state_def Let_def split: option.splits)

theorem getSharedMeshState_singleton_witness:
  "sharedMeshState page_load = None
   \<and> getSharedMeshState page_load
       = (0, page_load\<lparr>sharedMeshState := Some 0, heap_next := Suc 0\<rparr>)
   \<and> sharedMeshState mounted = Some 0
   \<and> getSharedMeshState mounted = (0, mounted)"
proof -
  have n: "sharedMeshState page_load = None" by (simp add: page_load_def)
  have "snd (getSharedMeshState page_load)
      = page_load\<lparr>sharedMeshState := Some 0, heap_next := Suc 0\<rparr>"
    by (simp add: getSharedMeshState_def page_load_def fun_eq_iff)
  moreover have "fst (getSharedMeshState page_load) = 0"
    by (simp add: getSharedMeshState_def page_load_def)
  ultimately have "getSharedMeshState page_load
       = (0, page_load\<lparr>sharedMeshState := Some 0, heap_next := Suc 0\<rparr>)"
    by (simp add: prod_eq_iff)
  with n getSharedMeshState_singleton[of mounted 0] show ?thesis
    by (simp add: mounted_fields)
qed

subsection \<open>Visibility\<close>

text \<open>
  C9. Two runs of a tick that differ only in \<^verbatim>\<open>inViewport\<close> leave the same state objects
  and hand the same positions and scales to the canvas; when the element is attached the
  update carries the interpolated position and scale in both, and \<^verbatim>\<open>visible\<close> is the
  flag of each run.
\<close>

theorem inViewport_gates_visible_only:
  "\<exists>w1 w2. animate upd sc w = Inr w1
     \<and> animate upd (sc\<lparr>inViewport := b\<rparr>) w = Inr w2
     \<and> heap w1 = heap w2
     \<and> map call_geometry (canvas_log w1) = map call_geometry (canvas_log w2)
     \<and> (current w (track sc) \<noteq> None \<longrightarrow>
          (\<exists>p1 p2. canvas_log w1 = canvas_log w @ [Update upd p1, RequestRender]
             \<and> canvas_log w2 = canvas_log w @ [Update upd p2, RequestRender]
             \<and> p_position p1 = vec_array (position (heap w1 (sharedState sc)))
             \<and> p_scale p1 = vec_array (scale (heap w1 (sharedState sc)))
             \<and> p_position p2 = p_position p1 \<and> p_scale p2 = p_scale p1
             \<and> p_visible p1 = inViewport sc \<and> p_visible p2 = b))"
  by (cases "current w (track sc)")
     (auto simp: animate_def getDOMState_def Let_def requestAnimationFrame_def)

theorem inViewport_gates_visible_only_witness:
  "current (snd first_render) (track (fst first_render)) \<noteq> None
   \<and> (\<exists>w1 w2 p1 p2.
        animate ''pageb-element'' (fst first_render) (snd first_render) = Inr w1
        \<and> animate ''pageb-element'' ((fst first_render)\<lparr>inViewport := False\<rparr>) (snd first_render)
            = Inr w2
        \<and> heap w1 = heap w2
        \<and> canvas_log w1 = canvas_log (snd first_render) @ [Update ''pageb-element'' p1, RequestRender]
        \<and> canvas_log w2 = canvas_log (snd first_render) @ [Update ''pageb-element'' p2, RequestRender]
        \<and> p_position p2 = p_position p1 \<and> p_scale p2 = p_scale p1
        \<and> p_visible p1 \<and> \<not> p_visible p2)"
proof -
  have c: "current (snd first_render) (track (fst first_render)) \<noteq> None"
    by (simp add: first_render_world first_render_scope page_load_def)
  have v: "inViewport (fst first_render)" by (simp add: first_render_scope)
  from inViewport_gates_visible_only[of "''pageb-element''" "fst first_render"
      "snd first_render" False] c v
  show ?thesis by metis
qed

subsection \<open>Remounting\<close>

lemma cleanup_keeps_geometry:
  "position (heap (cleanup sc w) a) = position (heap w a)"
  "scale (heap (cleanup sc w) a) = scale (heap w a)"
  "sharedMeshState (cleanup sc w) = sharedMeshState w"
  "canvas_log (cleanup sc w) = canvas_log w"
  by (simp_all add: cleanup_def Let_def cancelAnimationFrame_def)

text \<open>
  C10. A render registers the mesh with the position and scale of the shared singleton
  as they are at that moment, and when the singleton exists it is used unchanged. The
  cleanup of the previous mount keeps position and scale, so a render after it registers
  the values the last tick left, not the defaults.
\<close>

theorem remount_resumes_from_shared_state:
  "(\<exists>sc w'. AnimatedMesh i t l v u w = (sc, w')
      \<and> sharedMeshState w' = Some (sharedState sc)
      \<and> canvas_log w' = canvas_log w @
           [UseCanvas i \<lparr>p_position = vec_array (position (heap w' (sharedState sc))),
                         p_scale = vec_array (scale (heap w' (sharedState sc))),
                         p_visible = v\<rparr>]
      \<and> (sharedMeshState w = Some a \<longrightarrow> sharedState sc = a \<and> heap w' = heap w))
   \<and> (sharedMeshState w = Some a \<longrightarrow>
        canvas_log (snd (AnimatedMesh i t l v u (cleanup sc0 w))) = canvas_log w @
           [UseCanvas i \<lparr>p_position = vec_array (position (heap w a)),
                         p_scale = vec_array (scale (heap w a)),
                         p_visible = v\<rparr>])"
  by (auto simp: AnimatedMesh_def getSharedMeshState_def Let_def cleanup_keeps_geometry
      split: option.splits)

theorem remount_resumes_from_shared_state_witness:
  "sharedMeshState mounted = Some 0
   \<and> canvas_log (snd (AnimatedMesh ''pageb-element'' 1 (1 / 10) False (Some ''pageb-element'')
         (cleanup (fst first_render) mounted)))
     = canvas_log mounted @
         [UseCanvas ''pageb-element''
            \<lparr>p_position = [10, 0, 0], p_scale = [89 / 10, 89 / 10, 1], p_visible = False\<rparr>]"
  using remount_resumes_from_shared_state[of "''pageb-element''" 1 "1 / 10" False
      "Some ''pageb-element''" mounted 0 "fst first_render"]
  by (simp add: mounted_fields vec_array_def)

subsection \<open>One loop at a time\<close>

lemma single_loop_handles:
  "single_loop w \<Longrightarrow> length (frame_requests w) \<le> 1"
  "single_loop w \<Longrightarrow> sharedMeshState w = Some a \<Longrightarrow> r \<in> set (frame_requests w)
     \<Longrightarrow> fst r \<le> last_handle w"
  by (auto simp: single_loop_def split: option.splits list.splits)

text \<open>
  C3, amended. In every reachable world at most one callback is pending, and its handle
  is the one stored in the shared state. When an effect starts a loop there, the stored
  handle is cancelled first, no request pending before the start survives it, and
  afterwards exactly one request is pending, the new instance's, if its element is
  attached, and none if its ref is unset.
\<close>

theorem single_active_loop:
  assumes "reachable w"
  shows "length (frame_requests w) \<le> 1
    \<and> (\<forall>r \<in> set (frame_requests w).
          sharedMeshState w = Some (sharedState (snd (snd r)))
          \<and> fst r = animationId (heap w (sharedState (snd (snd r)))))
    \<and> (sharedMeshState w = Some (sharedState sc) \<and> update sc = Some upd \<longrightarrow>
         (\<exists>w'. effect sc w = Inr w'
            \<and> fst ` set (frame_requests w') \<inter> fst ` set (frame_requests w) = {}
            \<and> (animationId (heap w (sharedState sc)) \<noteq> 0 \<longrightarrow>
                 animationId (heap w (sharedState sc)) \<in> set (cancel_log w'))
            \<and> (current w (track sc) \<noteq> None \<longrightarrow>
                 frame_requests w' = [(animationId (heap w' (sharedState sc)), upd, sc)])
            \<and> (current w (track sc) = None \<longrightarrow> frame_requests w' = [])))"
proof (intro conjI impI)
  from assms have inv: "single_loop w" by (rule reachable_single_loop)
  then show "length (frame_requests w) \<le> 1" by (rule single_loop_handles(1))
  from inv show "\<forall>r \<in> set (frame_requests w).
          sharedMeshState w = Some (sharedState (snd (snd r)))
          \<and> fst r = animationId (heap w (sharedState (snd (snd r))))"
    by (auto simp: single_loop_def split: option.splits list.splits)
  assume h: "sharedMeshState w = Some (sharedState sc) \<and> update sc = Some upd"
  let ?a = "sharedState sc"
  let ?w1 = "if animationId (heap w ?a) \<noteq> 0
             then cancelAnimationFrame (animationId (heap w ?a)) w else w"
  have e: "frame_requests ?w1 = []"
    using inv h cancel_single_loop_empty single_loop_zero_empty by auto
  have l: "last_handle ?w1 = last_handle w" "current ?w1 = current w"
    by (simp_all add: cancelAnimationFrame_def)
  have c: "animationId (heap w ?a) \<noteq> 0 \<longrightarrow> animationId (heap w ?a) \<in> set (cancel_log ?w1)"
    by (simp add: cancelAnimationFrame_def)
  have eff: "effect sc w = animate upd sc ?w1" using h by (simp add: effect_def Let_def)
  obtain w' where w': "animate upd sc ?w1 = Inr w'" using animate_returns by blast
  have old: "\<forall>r \<in> set (frame_requests w). fst r \<le> last_handle w"
    using inv h single_loop_handles(2) by blast
  show "\<exists>w'. effect sc w = Inr w'
            \<and> fst ` set (frame_requests w') \<inter> fst ` set (frame_requests w) = {}
            \<and> (animationId (heap w (sharedState sc)) \<noteq> 0 \<longrightarrow>
                 animationId (heap w (sharedState sc)) \<in> set (cancel_log w'))
            \<and> (current w (track sc) \<noteq> None \<longrightarrow>
                 frame_requests w' = [(animationId (heap w' (sharedState sc)), upd, sc)])
            \<and> (current w (track sc) = None \<longrightarrow> frame_requests w' = [])"
  proof (cases "current w (track sc)")
    case None
    then have "w' = ?w1" using w' l(2) animate_unset[of ?w1 sc upd] by simp
    with eff w' e c None show ?thesis by simp
  next
    case (Some el)
    then have s: "current ?w1 (track sc) = Some el" using l(2) by simp
    note f = animate_set_fields[OF s w']
    have q: "frame_requests w' = [(Suc (last_handle w), upd, sc)]"
      using f(1) e l(1) by simp
    have i: "animationId (heap w' ?a) = Suc (last_handle w)" using f(3) l(1) by simp
    have d: "fst ` set (frame_requests w') \<inter> fst ` set (frame_requests w) = {}"
      using q old by fastforce
    have "cancel_log w' = cancel_log ?w1" using f(5) .
    with eff w' q i d c Some show ?thesis by simp
  qed
qed

theorem single_active_loop_witness:
  "reachable mounted
   \<and> frame_requests mounted = [(1, ''pageb-element'', fst first_render)]
   \<and> sharedMeshState mounted = Some (sharedState second_scope)
   \<and> update second_scope = Some ''pageb-element''
   \<and> current mounted (track second_scope) \<noteq> None
   \<and> (\<exists>w'. effect second_scope mounted = Inr w'
         \<and> frame_requests w' = [(animationId (heap w' 0), ''pageb-element'', second_scope)]
         \<and> fst ` set (frame_requests w') \<inter> fst ` set (frame_requests mounted) = {}
         \<and> 1 \<in> set (cancel_log w'))"
proof -
  have s: "sharedMeshState mounted = Some (sharedState second_scope)"
    "update second_scope = Some ''pageb-element''"
    "current mounted (track second_scope) \<noteq> None"
    "sharedState second_scope = 0"
    by (simp_all add: mounted_fields second_scope_def)
  have "\<exists>w'. effect second_scope mounted = Inr w'
     \<and> fst ` set (frame_requests w') \<inter> fst ` set (frame_requests mounted) = {}
     \<and> (animationId (heap mounted (sharedState second_scope)) \<noteq> 0 \<longrightarrow>
          animationId (heap mounted (sharedState second_scope)) \<in> set (cancel_log w'))
     \<and> (current mounted (track second_scope) \<noteq> None \<longrightarrow>
          frame_requests w'
            = [(animationId (heap w' (sharedState second_scope)), ''pageb-element'', second_scope)])
     \<and> (current mounted (track second_scope) = None \<longrightarrow> frame_requests w' = [])"
    using single_active_loop[OF reachable_mounted, of second_scope "''pageb-element''"] s(1,2)
    by blast
  then obtain w' where "effect second_scope mounted = Inr w'"
    "fst ` set (frame_requests w') \<inter> fst ` set (frame_requests mounted) = {}"
    "1 \<in> set (cancel_log w')"
    "frame_requests w' = [(animationId (heap w' 0), ''pageb-element'', second_scope)]"
    using s(3,4) mounted_fields(4) by auto
  with reachable_mounted mounted_fields(2) s(1,2,3) show ?thesis by blast
qed

lemma reachable_detached: "reachable detached"
proof -
  have "reachable (mounted\<lparr>innerWidth := innerWidth mounted, innerHeight := innerHeight mounted,
      boundingClientRect := boundingClientRect mounted, current := (\<lambda>r. None)\<rparr>)"
    using reachable_mounted by (rule r_layout)
  then show ?thesis by (simp add: detached_def)
qed

text \<open>
  C3, as the spec states it, fails: in the concrete run with the refs unset, the loop of
  the first mount is pending when the effect of a second render starts; the effect
  cancels the pending request and its own first tick returns without requesting one, so
  no callback chain survives.
\<close>

theorem second_start_unset_counterexample:
  "reachable detached
   \<and> frame_requests detached = [(1, ''pageb-element'', fst first_render)]
   \<and> sharedMeshState detached = Some (sharedState second_scope)
   \<and> update second_scope = Some ''pageb-element''
   \<and> current detached (track second_scope) = None
   \<and> effect second_scope detached = Inr (cancelAnimationFrame 1 detached)
   \<and> frame_requests (cancelAnimationFrame 1 detached) = []"
proof -
  have c: "current detached (track second_scope) = None" by (simp add: detached_def)
  have i: "animationId (heap detached (sharedState second_scope)) = 1"
    by (simp add: detached_def second_scope_def mounted_fields)
  have "current (cancelAnimationFrame 1 detached) (track second_scope) = None"
    by (simp add: cancelAnimationFrame_def detached_def)
  then have "effect second_scope detached = Inr (cancelAnimationFrame 1 detached)"
    using i by (simp add: effect_def Let_def animate_unset second_scope_def)
  with reachable_detached c show ?thesis
    by (simp add: detached_def mounted_fields second_scope_def cancelAnimationFrame_def)
qed

subsection \<open>Cancellation\<close>

lemma frames_idle: "frame_requests w = [] \<Longrightarrow> frames n w = Inr w"
  by (induction n) (simp_all add: frame_idle)

lemma cleanup_clears: "animationId (heap (cleanup sc w) (sharedState sc)) = 0"
  by (simp add: cleanup_def Let_def cancelAnimationFrame_def)

lemma cleanup_unset: "animationId (heap w (sharedState sc)) = 0 \<Longrightarrow> cleanup sc w = w"
  by (simp add: cleanup_def)

text \<open>
  C5. After the cleanup the stored handle is none, also after a second cleanup; the
  second cleanup changes nothing, the cancellation log included; with no stored handle the
  cleanup is the identity, and cancelling a handle that is not pending leaves the queue
  as it is. In a reachable world nothing is pending after the cleanup, so the frames that
  follow leave the world, and with it the shared state, unchanged.
\<close>

theorem cleanup_idempotent:
  "animationId (heap (cleanup sc w) (sharedState sc)) = 0
   \<and> animationId (heap (cleanup sc (cleanup sc w)) (sharedState sc)) = 0
   \<and> cleanup sc (cleanup sc w) = cleanup sc w
   \<and> cancel_log (cleanup sc (cleanup sc w)) = cancel_log (cleanup sc w)
   \<and> (animationId (heap w (sharedState sc)) = 0 \<longrightarrow> cleanup sc w = w)
   \<and> (h \<notin> fst ` set (frame_requests w) \<longrightarrow>
        frame_requests (cancelAnimationFrame h w) = frame_requests w)
   \<and> (reachable w \<and> sharedMeshState w = Some (sharedState sc) \<longrightarrow>
        frame_requests (cleanup sc w) = []
        \<and> frames n (cleanup sc w) = Inr (cleanup sc w))"
proof -
  have 1: "animationId (heap (cleanup sc w) (sharedState sc)) = 0" by (rule cleanup_clears)
  then have 2: "cleanup sc (cleanup sc w) = cleanup sc w" by (rule cleanup_unset)
  have 3: "h \<notin> fst ` set (frame_requests w) \<longrightarrow>
        frame_requests (cancelAnimationFrame h w) = frame_requests w"
    by (auto simp: cancelAnimationFrame_def filter_id_conv)
  have 4: "reachable w \<and> sharedMeshState w = Some (sharedState sc) \<longrightarrow>
        frame_requests (cleanup sc w) = [] \<and> frames n (cleanup sc w) = Inr (cleanup sc w)"
    using cleanup_single_loop(2) reachable_single_loop frames_idle by blast
  from 1 2 3 4 show ?thesis by (simp add: cleanup_unset)
qed

theorem cleanup_idempotent_witness:
  "reachable mounted \<and> sharedMeshState mounted = Some (sharedState (fst first_render))
   \<and> animationId (heap mounted (sharedState (fst first_render))) = 1
   \<and> frame_requests mounted = [(1, ''pageb-element'', fst first_render)]
   \<and> cancel_log (cleanup (fst first_render) mounted) = [1]
   \<and> animationId (heap (cleanup (fst first_render) mounted) (sharedState (fst first_render))) = 0
   \<and> frame_requests (cleanup (fst first_render) mounted) = []
   \<and> cleanup (fst first_render) (cleanup (fst first_render) mounted)
       = cleanup (fst first_render) mounted
   \<and> frames 2 (cleanup (fst first_render) mounted) = Inr (cleanup (fst first_render) mounted)
   \<and> 7 \<notin> fst ` set (frame_requests mounted)
   \<and> frame_requests (cancelAnimationFrame 7 mounted) = frame_requests mounted"
proof -
  have s: "sharedState (fst first_render) = 0" by (simp add: first_render_scope)
  have l: "cancel_log (cleanup (fst first_render) mounted) = [1]"
    by (simp add: cleanup_def Let_def s mounted_fields cancelAnimationFrame_def)
  have n: "7 \<notin> fst ` set (frame_requests mounted)" by (simp add: mounted_fields)
  from cleanup_idempotent[of "fst first_render" mounted 7 2] reachable_mounted l n
  show ?thesis by (simp add: s mounted_fields)
qed

end
